theory Spec2Isabelle
  imports Main
begin

section \<open>The sample vehicle application (\<open>app/src/main.py\<close>)\<close>

text \<open>
  The application subscribes to four vehicle signals, logs every change, republishes the
  values as JSON and answers four request topics. Its collaborators (the data broker, the
  publish/subscribe transport, the rendering of a floating-point value) are not part of
  the repository; they are parameters of the model, collected in an environment record.
  Every call that can raise in the Python code returns a sum here (\<open>Inl\<close> the exception),
  and every side effect is appended to a trace.
\<close>

subsection \<open>Module constants\<close>

definition SPEED_LOGGER_NAME :: string where
  "SPEED_LOGGER_NAME = ''vehicle/speed''"

definition LONGI_ACCEL_LOGGER_NAME :: string where
  "LONGI_ACCEL_LOGGER_NAME = ''vehicle/acceleration_longitudinal''"

definition LAT_ACCEL_LOGGER_NAME :: string where
  "LAT_ACCEL_LOGGER_NAME = ''vehicle/acceleration_lateral''"

definition VER_ACCEL_LOGGER_NAME :: string where
  "VER_ACCEL_LOGGER_NAME = ''vehicle/acceleration_vertical''"

definition GET_SPEED_REQUEST_TOPIC :: string where
  "GET_SPEED_REQUEST_TOPIC = ''sampleapp/getSpeed''"

definition GET_SPEED_RESPONSE_TOPIC :: string where
  "GET_SPEED_RESPONSE_TOPIC = ''sampleapp/getSpeed/response''"

definition DATABROKER_SPEED_SUBSCRIPTION_TOPIC :: string where
  "DATABROKER_SPEED_SUBSCRIPTION_TOPIC = ''sampleapp/currentSpeed''"

definition GET_LONGI_ACCEL_REQUEST_TOPIC :: string where
  "GET_LONGI_ACCEL_REQUEST_TOPIC = ''sampleapp/getLongitudinalAccel''"

definition GET_LONGI_ACCEL_RESPONSE_TOPIC :: string where
  "GET_LONGI_ACCEL_RESPONSE_TOPIC = ''sampleapp/getLongitudinalAccel/response''"

definition DATABROKER_LONGI_ACCEL_SUBSCRIPTION_TOPIC :: string where
  "DATABROKER_LONGI_ACCEL_SUBSCRIPTION_TOPIC = ''sampleapp/currentLongitudinalAccel''"

definition GET_LAT_ACCEL_REQUEST_TOPIC :: string where
  "GET_LAT_ACCEL_REQUEST_TOPIC = ''sampleapp/getLateralAccel''"

definition GET_LAT_ACCEL_RESPONSE_TOPIC :: string where
  "GET_LAT_ACCEL_RESPONSE_TOPIC = ''sampleapp/getLateralAccel/response''"

definition DATABROKER_LAT_ACCEL_SUBSCRIPTION_TOPIC :: string where
  "DATABROKER_LAT_ACCEL_SUBSCRIPTION_TOPIC = ''sampleapp/currentLateralAccel''"

definition GET_VER_ACCEL_REQUEST_TOPIC :: string where
  "GET_VER_ACCEL_REQUEST_TOPIC = ''sampleapp/getVerticalAccel''"

definition GET_VER_ACCEL_RESPONSE_TOPIC :: string where
  "GET_VER_ACCEL_RESPONSE_TOPIC = ''sampleapp/getVerticalAccel/response''"

definition DATABROKER_VER_ACCEL_SUBSCRIPTION_TOPIC :: string where
  "DATABROKER_VER_ACCEL_SUBSCRIPTION_TOPIC = ''sampleapp/currentVerticalAccel''"

text \<open>The levels of Python's \<open>logging\<close> module.\<close>

definition DEBUG :: nat where
  "DEBUG = 10"

definition INFO :: nat where
  "INFO = 20"

subsection \<open>The pieces of the Python runtime the handlers call\<close>

text \<open>
  \<open>msg % args\<close> restricted to the conversion \<open>%s\<close>, the only one the program uses: each
  \<open>%s\<close> is replaced by the next argument, already rendered by \<open>str\<close>. A \<open>%s\<close> that finds
  no argument is left in place (Python raises there; no call of the program reaches it).
\<close>

fun py_percent :: "string \<Rightarrow> string list \<Rightarrow> string" where
  "py_percent [] args = []"
| "py_percent [c] args = [c]"
| "py_percent (c # d # rest) args =
     (if c = CHR ''%'' \<and> d = CHR ''s''
      then (case args of
              [] \<Rightarrow> c # d # py_percent rest []
            | a # args' \<Rightarrow> a @ py_percent rest args')
      else c # py_percent (d # rest) args)"

text \<open>\<open>str\<close> of an integer, as \<open>json.dumps\<close> writes it.\<close>

fun nat_digits :: "nat \<Rightarrow> string" where
  "nat_digits n =
     (if n < 10 then [''0123456789'' ! n]
      else nat_digits (n div 10) @ [''0123456789'' ! (n mod 10)])"

definition int_repr :: "int \<Rightarrow> string" where
  "int_repr i = (if i < 0 then CHR ''-'' # nat_digits (nat (- i)) else nat_digits (nat i))"

text \<open>
  \<open>json.encoder.py_encode_basestring_ascii\<close>: the quote and the backslash are escaped,
  the five control characters with a short form take it, and every other character
  outside \<open>' '..'~'\<close> becomes \<open>\uXXXX\<close> in lower-case hexadecimal. A \<open>char\<close> is one
  code point below 256 here.
\<close>

definition hex4 :: "nat \<Rightarrow> string" where
  "hex4 n = map (\<lambda>k. ''0123456789abcdef'' ! ((n div 16 ^ k) mod 16)) [3, 2, 1, 0]"

definition escape_char :: "char \<Rightarrow> string" where
  \<open>escape_char c =
     (if c = CHR 0x5C then [CHR 0x5C, CHR 0x5C]
      else if c = CHR ''"'' then [CHR 0x5C, CHR ''"'']
      else if c = CHR 0x08 then [CHR 0x5C, CHR ''b'']
      else if c = CHR 0x0C then [CHR 0x5C, CHR ''f'']
      else if c = CHR 0x0A then [CHR 0x5C, CHR ''n'']
      else if c = CHR 0x0D then [CHR 0x5C, CHR ''r'']
      else if c = CHR 0x09 then [CHR 0x5C, CHR ''t'']
      else if of_char c < (0x20 :: nat) \<or> (0x7E :: nat) < of_char c
        then [CHR 0x5C, CHR ''u''] @ hex4 (of_char c)
      else [c])\<close>

definition py_encode_basestring_ascii :: "string \<Rightarrow> string" where
  \<open>py_encode_basestring_ascii s = [CHR ''"''] @ concat (map escape_char s) @ [CHR ''"'']\<close>

text \<open>
  The values handed to \<open>json.dumps\<close>: integers, signal values, strings and dictionaries
  (in insertion order). \<open>json.dumps\<close> is called with its default separators, \<open>', '\<close>
  between items and \<open>': '\<close> after a key. How a signal value is written (\<open>float.__repr__\<close>
  for a float) is the parameter \<open>fr\<close>.
\<close>

datatype 'v json = JInt int | JFloat 'v | JStr string | JDict "(string \<times> 'v json) list"

fun join_with :: "string \<Rightarrow> string list \<Rightarrow> string" where
  "join_with sep [] = []"
| "join_with sep [x] = x"
| "join_with sep (x # y # ys) = x @ sep @ join_with sep (y # ys)"

fun json_dumps :: "('v \<Rightarrow> string) \<Rightarrow> 'v json \<Rightarrow> string" where
  "json_dumps fr (JInt i) = int_repr i"
| "json_dumps fr (JFloat v) = fr v"
| "json_dumps fr (JStr s) = py_encode_basestring_ascii s"
| "json_dumps fr (JDict kvs) =
     ''{'' @ join_with '', ''
              (map (\<lambda>(k, v). py_encode_basestring_ascii k @ '': '' @ json_dumps fr v) kvs)
           @ ''}''"

subsection \<open>Signals, effects and the environment\<close>

text \<open>
  The four data points of the vehicle model the program touches: \<open>vehicle.Speed\<close> and
  \<open>vehicle.Acceleration.{Longitudinal, Lateral, Vertical}\<close>.
\<close>

datatype signal = Speed | Longitudinal | Lateral | Vertical

text \<open>The two bound methods passed to \<open>subscribe\<close>.\<close>

datatype callback = Cb_on_speed_change | Cb_on_accel_change

text \<open>
  What the program does to the outside: a record handed to a logger's handlers (logger
  name, level, formatted message), a call of \<open>publish_event\<close> (topic, payload), a call
  of \<open>subscribe\<close> on a data point (signal, callback). A call is recorded when it is made,
  whether it then returns or raises.
\<close>

datatype effect =
    Log string nat string
  | Publish string string
  | Subscribe signal callback

text \<open>
  The collaborators. \<open>vdb_get s\<close> is \<open>(await self.vehicle.<s>.get()).value\<close>: the value,
  or the exception raised. \<open>vdb_subscribe\<close> and \<open>pubsub_publish\<close> see the effects so
  far and say whether the call raises; the boolean a publish returns is dropped by every
  caller. \<open>py_str\<close> is \<open>str\<close> of a signal value (used by \<open>%s\<close> and by f-strings),
  \<open>json_float\<close> its rendering by \<open>json.dumps\<close>.
\<close>

record ('e, 'v) env =
  vdb_get :: "signal \<Rightarrow> 'e + 'v"
  vdb_subscribe :: "effect list \<Rightarrow> signal \<Rightarrow> 'e option"
  pubsub_publish :: "effect list \<Rightarrow> string \<Rightarrow> string \<Rightarrow> 'e + bool"
  py_str :: "'v \<Rightarrow> string"
  json_float :: "'v \<Rightarrow> string"

text \<open>
  A \<open>DataPointReply\<close>, seen through its only use \<open>data.get(<s>).value\<close>: for each
  signal the value carried, or the exception raised when the reply does not carry it.
\<close>

type_synonym ('e, 'v) DataPointReply = "signal \<Rightarrow> 'e + 'v"

text \<open>
  A coroutine of the program: from the effects so far to its result (the exception that
  left it, or its value) and the effects after it.
\<close>

type_synonym ('e, 'a) io = "effect list \<Rightarrow> ('e + 'a) \<times> effect list"

definition return_io :: "'a \<Rightarrow> ('e, 'a) io" where
  "return_io x tr = (Inr x, tr)"

definition bind_io :: "('e, 'a) io \<Rightarrow> ('a \<Rightarrow> ('e, 'b) io) \<Rightarrow> ('e, 'b) io" where
  "bind_io m k tr = (case m tr of (Inl e, tr') \<Rightarrow> (Inl e, tr') | (Inr x, tr') \<Rightarrow> k x tr')"

definition then_io :: "('e, 'a) io \<Rightarrow> ('e, 'b) io \<Rightarrow> ('e, 'b) io" where
  "then_io m k = bind_io m (\<lambda>_. k)"

definition reply_value :: "('e, 'v) DataPointReply \<Rightarrow> signal \<Rightarrow> ('e, 'v) io" where
  "reply_value data s tr = (data s, tr)"

definition current_value :: "('e, 'v) env \<Rightarrow> signal \<Rightarrow> ('e, 'v) io" where
  "current_value env s tr = (vdb_get env s, tr)"

definition publish_event :: "('e, 'v) env \<Rightarrow> string \<Rightarrow> string \<Rightarrow> ('e, bool) io" where
  "publish_event env topic payload tr =
     (pubsub_publish env tr topic payload, tr @ [Publish topic payload])"

definition subscribe :: "('e, 'v) env \<Rightarrow> signal \<Rightarrow> callback \<Rightarrow> ('e, unit) io" where
  "subscribe env s cb tr =
     (case vdb_subscribe env tr s of None \<Rightarrow> Inr () | Some e \<Rightarrow> Inl e, tr @ [Subscribe s cb])"

subsection \<open>Loggers\<close>

text \<open>
  A logger is its name and its effective level. \<open>setup_accel_logger\<close> gives the logger
  its own rotating file handler and level \<open>INFO\<close>; the module's \<open>logger\<close> inherits
  \<open>DEBUG\<close> from the root logger. A call below the effective level emits nothing.
\<close>

record py_logger =
  logger_name :: string
  effective_level :: nat

definition setup_accel_logger :: "string \<Rightarrow> py_logger" where
  "setup_accel_logger name = \<lparr>logger_name = name, effective_level = INFO\<rparr>"

definition SpeedLogger :: py_logger where
  "SpeedLogger = setup_accel_logger SPEED_LOGGER_NAME"

definition LongiAccelLogger :: py_logger where
  "LongiAccelLogger = setup_accel_logger LONGI_ACCEL_LOGGER_NAME"

definition LatAccelLogger :: py_logger where
  "LatAccelLogger = setup_accel_logger LAT_ACCEL_LOGGER_NAME"

definition VerAccelLogger :: py_logger where
  "VerAccelLogger = setup_accel_logger VER_ACCEL_LOGGER_NAME"

definition logger :: py_logger where
  "logger = \<lparr>logger_name = ''__main__'', effective_level = DEBUG\<rparr>"

definition log_at :: "nat \<Rightarrow> py_logger \<Rightarrow> string \<Rightarrow> string list \<Rightarrow> ('e, unit) io" where
  "log_at level lg msg args tr =
     (Inr (), if effective_level lg \<le> level
              then tr @ [Log (logger_name lg) level (py_percent msg args)]
              else tr)"

definition logger_info :: "py_logger \<Rightarrow> string \<Rightarrow> string list \<Rightarrow> ('e, unit) io" where
  "logger_info = log_at INFO"

definition logger_debug :: "py_logger \<Rightarrow> string \<Rightarrow> string list \<Rightarrow> ('e, unit) io" where
  "logger_debug = log_at DEBUG"

subsection \<open>The class \<open>SampleApp\<close>\<close>


definition on_speed_change :: "('e, 'v) env \<Rightarrow> ('e, 'v) DataPointReply \<Rightarrow> ('e, unit) io" where
  "on_speed_change env data =
     bind_io (reply_value data Speed) (\<lambda>vehicle_speed.
     then_io (logger_info SpeedLogger ''Vehicle speed: %s'' [py_str env vehicle_speed])
    (then_io (publish_event env DATABROKER_SPEED_SUBSCRIPTION_TOPIC
                (json_dumps (json_float env) (JDict [(''speed'', JFloat vehicle_speed)])))
             (return_io ())))"

definition on_accel_change :: "('e, 'v) env \<Rightarrow> ('e, 'v) DataPointReply \<Rightarrow> ('e, unit) io" where
  "on_accel_change env data =
     bind_io (reply_value data Longitudinal) (\<lambda>vehicle_longi_accel.
     bind_io (reply_value data Lateral) (\<lambda>vehicle_lat_acceleration.
     bind_io (reply_value data Vertical) (\<lambda>vehicle_ver_acceleration.
     then_io (logger_info LongiAccelLogger ''Vehicle longitudinal acceleration: %s''
                [py_str env vehicle_longi_accel])
    (then_io (logger_info LatAccelLogger ''Vehicle lateral acceleration: %s''
                [py_str env vehicle_lat_acceleration])
    (then_io (logger_info VerAccelLogger ''Vehicle vertical acceleration: %s''
                [py_str env vehicle_ver_acceleration])
    (then_io (publish_event env DATABROKER_LONGI_ACCEL_SUBSCRIPTION_TOPIC
                (json_dumps (json_float env)
                   (JDict [(''longitudinal_acceleration'', JFloat vehicle_longi_accel)])))
    (then_io (publish_event env DATABROKER_LAT_ACCEL_SUBSCRIPTION_TOPIC
                (json_dumps (json_float env)
                   (JDict [(''lateral_acceleration'', JFloat vehicle_lat_acceleration)])))
    (then_io (publish_event env DATABROKER_VER_ACCEL_SUBSCRIPTION_TOPIC
                (json_dumps (json_float env)
                   (JDict [(''vertical_acceleration'', JFloat vehicle_ver_acceleration)])))
             (return_io ())))))))))"

definition on_get_speed_request_received :: "('e, 'v) env \<Rightarrow> string \<Rightarrow> ('e, unit) io" where
  "on_get_speed_request_received env data =
     then_io (logger_debug logger ''Received speed request on topic %s with data: %s''
                [GET_SPEED_REQUEST_TOPIC, data])
    (bind_io (current_value env Speed) (\<lambda>vehicle_speed.
     then_io (publish_event env GET_SPEED_RESPONSE_TOPIC
                (json_dumps (json_float env)
                   (JDict [(''result'',
                      JDict [(''status'', JInt 0),
                             (''message'', JStr (''Speed = '' @ py_str env vehicle_speed))])])))
             (return_io ())))"

definition on_get_longi_accel_request_received ::
  "('e, 'v) env \<Rightarrow> string \<Rightarrow> ('e, unit) io" where
  "on_get_longi_accel_request_received env data =
     then_io (logger_debug logger
                ''Received longitudinal acceleration request on topic %s with data: %s''
                [GET_LONGI_ACCEL_REQUEST_TOPIC, data])
    (bind_io (current_value env Longitudinal) (\<lambda>vehicle_longi_accel.
     then_io (publish_event env GET_LONGI_ACCEL_RESPONSE_TOPIC
                (json_dumps (json_float env)
                   (JDict [(''result'',
                      JDict [(''status'', JInt 0),
                             (''message'',
                              JStr (''Longi Acceleration = '' @ py_str env vehicle_longi_accel))])])))
             (return_io ())))"

definition on_get_lat_accel_request_received ::
  "('e, 'v) env \<Rightarrow> string \<Rightarrow> ('e, unit) io" where
  "on_get_lat_accel_request_received env data =
     then_io (logger_debug logger
                ''Received lateral acceleration request on topic %s with data: %s''
                [GET_LAT_ACCEL_REQUEST_TOPIC, data])
    (bind_io (current_value env Lateral) (\<lambda>vehicle_lat_accel.
     then_io (publish_event env GET_LAT_ACCEL_RESPONSE_TOPIC
                (json_dumps (json_float env)
                   (JDict [(''result'',
                      JDict [(''status'', JInt 0),
                             (''message'',
                              JStr (''LAT Acceleration = '' @ py_str env vehicle_lat_accel))])])))
             (return_io ())))"

definition on_get_ver_accel_request_received ::
  "('e, 'v) env \<Rightarrow> string \<Rightarrow> ('e, unit) io" where
  "on_get_ver_accel_request_received env data =
     then_io (logger_debug logger
                ''Received vertical acceleration request on topic %s with data: %s''
                [GET_VER_ACCEL_REQUEST_TOPIC, data])
    (bind_io (current_value env Vertical) (\<lambda>vehicle_ver_accel.
     then_io (publish_event env GET_VER_ACCEL_RESPONSE_TOPIC
                (json_dumps (json_float env)
                   (JDict [(''result'',
                      JDict [(''status'', JInt 0),
                             (''message'',
                              JStr (''Vertical Acceleration = '' @ py_str env vehicle_ver_accel))])])))
             (return_io ())))"

text \<open>
  The bindings made by the \<open>@subscribe_topic\<close> decorators, in the order of the class body,
  and the delivery of an inbound message: the handler bound to the topic runs; a topic
  with no binding runs nothing.
\<close>

definition subscribe_topic :: "(string \<times> (('e, 'v) env \<Rightarrow> string \<Rightarrow> ('e, unit) io)) list" where
  "subscribe_topic =
     [(GET_SPEED_REQUEST_TOPIC, on_get_speed_request_received),
      (GET_LONGI_ACCEL_REQUEST_TOPIC, on_get_longi_accel_request_received),
      (GET_LAT_ACCEL_REQUEST_TOPIC, on_get_lat_accel_request_received),
      (GET_VER_ACCEL_REQUEST_TOPIC, on_get_ver_accel_request_received)]"

definition on_message :: "('e, 'v) env \<Rightarrow> string \<Rightarrow> string \<Rightarrow> ('e, unit) io" where
  "on_message env topic data =
     (case map_of subscribe_topic topic of
        None \<Rightarrow> return_io ()
      | Some handler \<Rightarrow> handler env data)"

text \<open>The callback a subscription invokes on a change notification.\<close>

fun notify :: "('e, 'v) env \<Rightarrow> callback \<Rightarrow> ('e, 'v) DataPointReply \<Rightarrow> ('e, unit) io" where
  "notify env Cb_on_speed_change data = on_speed_change env data"
| "notify env Cb_on_accel_change data = on_accel_change env data"

subsection \<open>Reading a trace\<close>

fun publishes :: "effect list \<Rightarrow> (string \<times> string) list" where
  "publishes [] = []"
| "publishes (Publish topic payload # es) = (topic, payload) # publishes es"
| "publishes (Log name level msg # es) = publishes es"
| "publishes (Subscribe s cb # es) = publishes es"

fun subscriptions :: "effect list \<Rightarrow> (signal \<times> callback) list" where
  "subscriptions [] = []"
| "subscriptions (Subscribe s cb # es) = (s, cb) # subscriptions es"
| "subscriptions (Log name level msg # es) = subscriptions es"
| "subscriptions (Publish topic payload # es) = subscriptions es"

subsection \<open>Concrete environments\<close>

text \<open>
  Environments for evaluating the handlers: signal values are given by their decimal
  text, exceptions by a message. In \<open>steady_env\<close> no call raises; in \<open>offline_env\<close> the
  broker answers no query; in \<open>lossy_env bad\<close> a publish on the topic \<open>bad\<close>
  raises a transport error; in \<open>flaky_env n\<close> the publish made after \<open>n\<close> earlier ones
  raises it, whatever its topic.
\<close>

definition steady_values :: "signal \<Rightarrow> string + string" where
  "steady_values s =
     (case s of Speed \<Rightarrow> Inr ''42.5'' | Longitudinal \<Rightarrow> Inr ''1.0''
              | Lateral \<Rightarrow> Inr ''-0.5'' | Vertical \<Rightarrow> Inr ''9.81'')"

definition steady_env :: "(string, string) env" where
  "steady_env =
     \<lparr>vdb_get = steady_values,
      vdb_subscribe = (\<lambda>tr s. None),
      pubsub_publish = (\<lambda>tr topic payload. Inr True),
      py_str = (\<lambda>v. v),
      json_float = (\<lambda>v. v)\<rparr>"

definition offline_env :: "(string, string) env" where
  "offline_env = steady_env\<lparr>vdb_get := (\<lambda>s. Inl ''broker unreachable'')\<rparr>"

definition lossy_env :: "string \<Rightarrow> (string, string) env" where
  "lossy_env bad =
     steady_env\<lparr>pubsub_publish := (\<lambda>tr topic payload.
        if topic = bad then Inl ''transport error'' else Inr True)\<rparr>"

definition flaky_env :: "nat \<Rightarrow> (string, string) env" where
  "flaky_env n =
     steady_env\<lparr>pubsub_publish := (\<lambda>tr topic payload.
        if length (publishes tr) = n then Inl ''transport error'' else Inr True)\<rparr>"

definition speed_only :: "(string, string) DataPointReply" where
  "speed_only s = (case s of Speed \<Rightarrow> Inr ''42.5'' | _ \<Rightarrow> Inl ''not contained in reply'')"

definition lateral_missing :: "(string, string) DataPointReply" where
  "lateral_missing s =
     (case s of Lateral \<Rightarrow> Inl ''not contained in reply'' | _ \<Rightarrow> steady_values s)"

section \<open>Properties\<close>

declare nat_digits.simps [simp del]

lemmas topic_defs =
  GET_SPEED_REQUEST_TOPIC_def GET_SPEED_RESPONSE_TOPIC_def
  DATABROKER_SPEED_SUBSCRIPTION_TOPIC_def
  GET_LONGI_ACCEL_REQUEST_TOPIC_def GET_LONGI_ACCEL_RESPONSE_TOPIC_def
  DATABROKER_LONGI_ACCEL_SUBSCRIPTION_TOPIC_def
  GET_LAT_ACCEL_REQUEST_TOPIC_def GET_LAT_ACCEL_RESPONSE_TOPIC_def
  DATABROKER_LAT_ACCEL_SUBSCRIPTION_TOPIC_def
  GET_VER_ACCEL_REQUEST_TOPIC_def GET_VER_ACCEL_RESPONSE_TOPIC_def
  DATABROKER_VER_ACCEL_SUBSCRIPTION_TOPIC_def

lemmas logger_name_defs =
  SPEED_LOGGER_NAME_def LONGI_ACCEL_LOGGER_NAME_def
  LAT_ACCEL_LOGGER_NAME_def VER_ACCEL_LOGGER_NAME_def

lemmas level_defs = DEBUG_def INFO_def

lemmas io_defs =
  return_io_def bind_io_def then_io_def reply_value_def current_value_def
  publish_event_def subscribe_def log_at_def logger_info_def logger_debug_def

lemmas logger_defs =
  setup_accel_logger_def SpeedLogger_def LongiAccelLogger_def LatAccelLogger_def
  VerAccelLogger_def logger_def

lemma publishes_append: "publishes (xs @ ys) = publishes xs @ publishes ys"
  by (induction xs rule: publishes.induct) simp_all

lemma subscriptions_append: "subscriptions (xs @ ys) = subscriptions xs @ subscriptions ys"
  by (induction xs rule: subscriptions.induct) simp_all

subsection \<open>What each request handler does\<close>

lemmas handler_defs =
  on_get_speed_request_received_def on_get_longi_accel_request_received_def
  on_get_lat_accel_request_received_def on_get_ver_accel_request_received_def

lemma int_repr_0: "int_repr 0 = ''0''"
  by (simp add: int_repr_def nat_digits.simps)

lemma escape_plain: "list_all (\<lambda>c. escape_char c = [c]) s \<Longrightarrow> concat (map escape_char s) = s"
  by (induction s) simp_all

lemma on_message_speed: "on_message env ''sampleapp/getSpeed'' = on_get_speed_request_received env"
  by (simp add: on_message_def subscribe_topic_def topic_defs fun_eq_iff)

lemma on_message_longi:
  "on_message env ''sampleapp/getLongitudinalAccel'' = on_get_longi_accel_request_received env"
  by (simp add: on_message_def subscribe_topic_def topic_defs fun_eq_iff)

lemma on_message_lat:
  "on_message env ''sampleapp/getLateralAccel'' = on_get_lat_accel_request_received env"
  by (simp add: on_message_def subscribe_topic_def topic_defs fun_eq_iff)

lemma on_message_ver:
  "on_message env ''sampleapp/getVerticalAccel'' = on_get_ver_accel_request_received env"
  by (simp add: on_message_def subscribe_topic_def topic_defs fun_eq_iff)

lemma on_message_unbound:
  assumes "topic \<noteq> ''sampleapp/getSpeed''" and "topic \<noteq> ''sampleapp/getLongitudinalAccel''"
    and "topic \<noteq> ''sampleapp/getLateralAccel''" and "topic \<noteq> ''sampleapp/getVerticalAccel''"
  shows "on_message env topic data tr = (Inr (), tr)"
  using assms by (simp add: on_message_def subscribe_topic_def topic_defs return_io_def)

lemma response_text:
  \<open>json_dumps fr (JDict [(''result'', JDict [(''status'', JInt 0), (''message'', JStr m)])]) =
     ''{"result": {"status": 0, "message": '' @ py_encode_basestring_ascii m @ ''}}''\<close>
  by (simp add: int_repr_0 py_encode_basestring_ascii_def escape_char_def)

lemma speed_request_fail:
  assumes "vdb_get env Speed = Inl e"
  shows "on_get_speed_request_received env data tr =
     (Inl e, tr @ [Log ''__main__'' DEBUG
        (''Received speed request on topic sampleapp/getSpeed with data: '' @ data)])"
  using assms by (simp add: handler_defs io_defs logger_defs level_defs topic_defs)

lemma longi_request_fail:
  assumes "vdb_get env Longitudinal = Inl e"
  shows "on_get_longi_accel_request_received env data tr =
     (Inl e, tr @ [Log ''__main__'' DEBUG
        (''Received longitudinal acceleration request on topic sampleapp/getLongitudinalAccel with data: '' @ data)])"
  using assms by (simp add: handler_defs io_defs logger_defs level_defs topic_defs)

lemma lat_request_fail:
  assumes "vdb_get env Lateral = Inl e"
  shows "on_get_lat_accel_request_received env data tr =
     (Inl e, tr @ [Log ''__main__'' DEBUG
        (''Received lateral acceleration request on topic sampleapp/getLateralAccel with data: '' @ data)])"
  using assms by (simp add: handler_defs io_defs logger_defs level_defs topic_defs)

lemma ver_request_fail:
  assumes "vdb_get env Vertical = Inl e"
  shows "on_get_ver_accel_request_received env data tr =
     (Inl e, tr @ [Log ''__main__'' DEBUG
        (''Received vertical acceleration request on topic sampleapp/getVerticalAccel with data: '' @ data)])"
  using assms by (simp add: handler_defs io_defs logger_defs level_defs topic_defs)

lemma speed_request_ok:
  assumes "vdb_get env Speed = Inr v"
  shows "snd (on_get_speed_request_received env data tr) = tr @
     [Log ''__main__'' DEBUG
        (''Received speed request on topic sampleapp/getSpeed with data: '' @ data),
      Publish ''sampleapp/getSpeed/response''
        (json_dumps (json_float env)
           (JDict [(''result'', JDict [(''status'', JInt 0),
                     (''message'', JStr (''Speed = '' @ py_str env v))])]))]"
  using assms
  by (simp add: handler_defs io_defs logger_defs level_defs topic_defs del: json_dumps.simps
      split: sum.splits)

lemma longi_request_ok:
  assumes "vdb_get env Longitudinal = Inr v"
  shows "snd (on_get_longi_accel_request_received env data tr) = tr @
     [Log ''__main__'' DEBUG
        (''Received longitudinal acceleration request on topic sampleapp/getLongitudinalAccel with data: '' @ data),
      Publish ''sampleapp/getLongitudinalAccel/response''
        (json_dumps (json_float env)
           (JDict [(''result'', JDict [(''status'', JInt 0),
                     (''message'', JStr (''Longi Acceleration = '' @ py_str env v))])]))]"
  using assms
  by (simp add: handler_defs io_defs logger_defs level_defs topic_defs del: json_dumps.simps
      split: sum.splits)

lemma lat_request_ok:
  assumes "vdb_get env Lateral = Inr v"
  shows "snd (on_get_lat_accel_request_received env data tr) = tr @
     [Log ''__main__'' DEBUG
        (''Received lateral acceleration request on topic sampleapp/getLateralAccel with data: '' @ data),
      Publish ''sampleapp/getLateralAccel/response''
        (json_dumps (json_float env)
           (JDict [(''result'', JDict [(''status'', JInt 0),
                     (''message'', JStr (''LAT Acceleration = '' @ py_str env v))])]))]"
  using assms
  by (simp add: handler_defs io_defs logger_defs level_defs topic_defs del: json_dumps.simps
      split: sum.splits)

lemma ver_request_ok:
  assumes "vdb_get env Vertical = Inr v"
  shows "snd (on_get_ver_accel_request_received env data tr) = tr @
     [Log ''__main__'' DEBUG
        (''Received vertical acceleration request on topic sampleapp/getVerticalAccel with data: '' @ data),
      Publish ''sampleapp/getVerticalAccel/response''
        (json_dumps (json_float env)
           (JDict [(''result'', JDict [(''status'', JInt 0),
                     (''message'', JStr (''Vertical Acceleration = '' @ py_str env v))])]))]"
  using assms
  by (simp add: handler_defs io_defs logger_defs level_defs topic_defs del: json_dumps.simps
      split: sum.splits)

lemmas on_message_bound = on_message_speed on_message_longi on_message_lat on_message_ver
lemmas request_ok = speed_request_ok longi_request_ok lat_request_ok ver_request_ok
lemmas request_fail = speed_request_fail longi_request_fail lat_request_fail ver_request_fail

lemma on_message_split:
  obtains "topic = ''sampleapp/getSpeed''" | "topic = ''sampleapp/getLongitudinalAccel''"
    | "topic = ''sampleapp/getLateralAccel''" | "topic = ''sampleapp/getVerticalAccel''"
    | "topic \<noteq> ''sampleapp/getSpeed''" "topic \<noteq> ''sampleapp/getLongitudinalAccel''"
      "topic \<noteq> ''sampleapp/getLateralAccel''" "topic \<noteq> ''sampleapp/getVerticalAccel''"
  by blast

subsection \<open>What the acceleration callback does\<close>

lemma accel_change_run:
  assumes "data Longitudinal = Inr L" and "data Lateral = Inr A" and "data Vertical = Inr Vt"
  shows \<open>on_accel_change env data tr =
    (let h = tr @ [Log ''vehicle/acceleration_longitudinal'' INFO
                     (''Vehicle longitudinal acceleration: '' @ py_str env L),
                   Log ''vehicle/acceleration_lateral'' INFO
                     (''Vehicle lateral acceleration: '' @ py_str env A),
                   Log ''vehicle/acceleration_vertical'' INFO
                     (''Vehicle vertical acceleration: '' @ py_str env Vt)];
         pl = ''{"longitudinal_acceleration": '' @ json_float env L @ ''}'';
         pa = ''{"lateral_acceleration": '' @ json_float env A @ ''}'';
         pv = ''{"vertical_acceleration": '' @ json_float env Vt @ ''}'';
         h1 = h @ [Publish ''sampleapp/currentLongitudinalAccel'' pl];
         h2 = h1 @ [Publish ''sampleapp/currentLateralAccel'' pa];
         h3 = h2 @ [Publish ''sampleapp/currentVerticalAccel'' pv]
     in case pubsub_publish env h ''sampleapp/currentLongitudinalAccel'' pl of
          Inl e \<Rightarrow> (Inl e, h1)
        | Inr _ \<Rightarrow>
            (case pubsub_publish env h1 ''sampleapp/currentLateralAccel'' pa of
               Inl e \<Rightarrow> (Inl e, h2)
             | Inr _ \<Rightarrow>
                 (case pubsub_publish env h2 ''sampleapp/currentVerticalAccel'' pv of
                    Inl e \<Rightarrow> (Inl e, h3)
                  | Inr _ \<Rightarrow> (Inr (), h3))))\<close>
  using assms
  by (simp add: on_accel_change_def io_defs logger_defs logger_name_defs topic_defs
       py_encode_basestring_ascii_def escape_char_def Let_def split: sum.splits)

lemma steady_reply:
  "steady_values Longitudinal = Inr ''1.0''" "steady_values Lateral = Inr ''-0.5''"
  "steady_values Vertical = Inr ''9.81''" "steady_values Speed = Inr ''42.5''"
  by (simp_all add: steady_values_def)

subsection \<open>What startup does\<close>


section \<open>The claims\<close>

subsection \<open>Request handlers\<close>

text \<open>
  Claim C1. For each of the four request topics, when the bound handler runs and the fetch
  of the bound signal returns \<open>v\<close>, the handler makes exactly one publish, on the paired
  response topic. Its body is the dump of \<open>{"result": {"status": 0, "message": m}}\<close>
  where \<open>m\<close> is the handler's label followed by \<open>str(v)\<close>; when \<open>str(v)\<close> needs no
  JSON escape (digits, sign, point, exponent) it stands in the body as it is.
\<close>

theorem request_publishes_one_response:
  assumes "(topic, s, resp, label) \<in>
      {(''sampleapp/getSpeed'', Speed, ''sampleapp/getSpeed/response'', ''Speed = ''),
       (''sampleapp/getLongitudinalAccel'', Longitudinal,
          ''sampleapp/getLongitudinalAccel/response'', ''Longi Acceleration = ''),
       (''sampleapp/getLateralAccel'', Lateral,
          ''sampleapp/getLateralAccel/response'', ''LAT Acceleration = ''),
       (''sampleapp/getVerticalAccel'', Vertical,
          ''sampleapp/getVerticalAccel/response'', ''Vertical Acceleration = '')}"
    and "vdb_get env s = Inr v"
  shows \<open>publishes (snd (on_message env topic data tr)) =
      publishes tr @
        [(resp, json_dumps (json_float env)
                  (JDict [(''result'', JDict [(''status'', JInt 0),
                            (''message'', JStr (label @ py_str env v))])]))]
    \<and> (list_all (\<lambda>c. escape_char c = [c]) (py_str env v) \<longrightarrow>
         json_dumps (json_float env)
           (JDict [(''result'', JDict [(''status'', JInt 0),
                     (''message'', JStr (label @ py_str env v))])]) =
         ''{"result": {"status": 0, "message": "'' @ label @ py_str env v @ ''"}}'')\<close>
proof -
  have plain: "list_all (\<lambda>c. escape_char c = [c]) label"
    using assms(1) by (auto simp add: escape_char_def)
  have verbatim: "list_all (\<lambda>c. escape_char c = [c]) (py_str env v) \<Longrightarrow>
      py_encode_basestring_ascii (label @ py_str env v) =
        [CHR 0x22] @ label @ py_str env v @ [CHR 0x22]"
    using plain by (simp add: py_encode_basestring_ascii_def escape_plain)
  have one: "publishes (snd (on_message env topic data tr)) =
      publishes tr @
        [(resp, json_dumps (json_float env)
                  (JDict [(''result'', JDict [(''status'', JInt 0),
                            (''message'', JStr (label @ py_str env v))])]))]"
    using assms
    by (auto simp add: on_message_bound request_ok publishes_append simp del: json_dumps.simps)
  show ?thesis
    using one verbatim by (simp add: response_text del: json_dumps.simps)
qed

theorem request_publishes_one_response_witness:
  \<open>vdb_get steady_env Vertical = Inr ''9.81'' \<and>
   publishes (snd (on_message steady_env ''sampleapp/getVerticalAccel'' ''{}'' [])) =
     [(''sampleapp/getVerticalAccel/response'',
       ''{"result": {"status": 0, "message": "Vertical Acceleration = 9.81"}}'')]\<close>
proof -
  have fetched: "vdb_get steady_env Vertical = Inr ''9.81''"
    by (simp add: steady_env_def steady_values_def)
  have digits: "list_all (\<lambda>c. escape_char c = [c]) (py_str steady_env ''9.81'')"
    by (simp add: steady_env_def escape_char_def)
  show ?thesis
    using fetched digits
      request_publishes_one_response
        [of "''sampleapp/getVerticalAccel''" Vertical "''sampleapp/getVerticalAccel/response''"
            "''Vertical Acceleration = ''" steady_env "''9.81''" "''{}''" "[]"]
    by (simp add: steady_env_def del: json_dumps.simps)
qed

text \<open>
  Claim C4. When the fetch of the current value raises, the request handler ends with
  that same exception and has published nothing.
\<close>

theorem request_fetch_failure_propagates:
  assumes "(topic, s) \<in>
      {(''sampleapp/getSpeed'', Speed), (''sampleapp/getLongitudinalAccel'', Longitudinal),
       (''sampleapp/getLateralAccel'', Lateral), (''sampleapp/getVerticalAccel'', Vertical)}"
    and "vdb_get env s = Inl e"
  shows "fst (on_message env topic data tr) = Inl e \<and>
         publishes (snd (on_message env topic data tr)) = publishes tr"
  using assms
  by (auto simp add: on_message_bound request_fail publishes_append)

theorem request_fetch_failure_propagates_witness:
  "vdb_get offline_env Lateral = Inl ''broker unreachable'' \<and>
   fst (on_message offline_env ''sampleapp/getLateralAccel'' ''{}'' []) =
     Inl ''broker unreachable'' \<and>
   publishes (snd (on_message offline_env ''sampleapp/getLateralAccel'' ''{}'' [])) = []"
proof -
  have down: "vdb_get offline_env Lateral = Inl ''broker unreachable''"
    by (simp add: offline_env_def steady_env_def)
  show ?thesis
    using down
      request_fetch_failure_propagates
        [of "''sampleapp/getLateralAccel''" Lateral offline_env "''broker unreachable''"
            "''{}''" "[]"]
    by simp
qed

subsection \<open>Change notifications\<close>

text \<open>
  Claim C5. For a speed change notification carrying \<open>V\<close>, \<open>on_speed_change\<close> hands
  exactly one record to the speed logger, \<open>Vehicle speed: V\<close>, and then makes exactly one
  publish, of \<open>{"speed": V}\<close> on \<open>sampleapp/currentSpeed\<close>.
\<close>

theorem speed_change_logs_and_publishes:
  assumes "data Speed = Inr V"
  shows \<open>snd (on_speed_change env data tr) =
     tr @ [Log ''vehicle/speed'' INFO (''Vehicle speed: '' @ py_str env V),
           Publish ''sampleapp/currentSpeed'' (''{"speed": '' @ json_float env V @ ''}'')]\<close>
  using assms
  by (simp add: on_speed_change_def io_defs logger_defs logger_name_defs topic_defs
       py_encode_basestring_ascii_def escape_char_def split: sum.splits)

theorem speed_change_logs_and_publishes_witness:
  \<open>speed_only Speed = Inr ''42.5'' \<and>
   snd (on_speed_change steady_env speed_only []) =
     [Log ''vehicle/speed'' INFO ''Vehicle speed: 42.5'',
      Publish ''sampleapp/currentSpeed'' ''{"speed": 42.5}'']\<close>
proof -
  have carried: "speed_only Speed = Inr ''42.5''"
    by (simp add: speed_only_def)
  show ?thesis
    using carried
      speed_change_logs_and_publishes [of speed_only "''42.5''" steady_env "[]"]
    by (simp add: steady_env_def)
qed

text \<open>
  Claim C2 says that every acceleration change notification carrying \<open>L\<close>, \<open>A\<close> and
  \<open>Vt\<close> yields exactly three publishes. The publishes are awaited one after the other:
  when the lateral publish raises, the notification has yielded two publishes, not three.
\<close>

theorem accel_change_lateral_raise_two_publishes:
  \<open>steady_values Longitudinal = Inr ''1.0'' \<and> steady_values Lateral = Inr ''-0.5'' \<and>
   steady_values Vertical = Inr ''9.81'' \<and>
   publishes (snd (on_accel_change (lossy_env ''sampleapp/currentLateralAccel'')
                     steady_values [])) =
     [(''sampleapp/currentLongitudinalAccel'', ''{"longitudinal_acceleration": 1.0}''),
      (''sampleapp/currentLateralAccel'', ''{"lateral_acceleration": -0.5}'')]\<close>
  by (simp add: accel_change_run [OF steady_reply(1) steady_reply(2) steady_reply(3)]
       steady_reply Let_def lossy_env_def steady_env_def)

text \<open>
  Claim C2, amended. For every acceleration change notification carrying \<open>L\<close>, \<open>A\<close> and
  \<open>Vt\<close>, \<open>on_accel_change\<close> first writes exactly three log lines, one per logger, each
  with its axis value, in the order longitudinal, lateral, vertical; the publishes follow,
  in the same order, one per axis topic, each a single-key body with its axis value, up
  to the first publish that raises. When the longitudinal and the lateral publish call
  return, there are exactly three publishes.
\<close>

theorem accel_change_logs_then_publishes:
  assumes "data Longitudinal = Inr L" and "data Lateral = Inr A" and "data Vertical = Inr Vt"
  shows \<open>let logs = [Log ''vehicle/acceleration_longitudinal'' INFO
                      (''Vehicle longitudinal acceleration: '' @ py_str env L),
                    Log ''vehicle/acceleration_lateral'' INFO
                      (''Vehicle lateral acceleration: '' @ py_str env A),
                    Log ''vehicle/acceleration_vertical'' INFO
                      (''Vehicle vertical acceleration: '' @ py_str env Vt)];
             pl = ''{"longitudinal_acceleration": '' @ json_float env L @ ''}'';
             pa = ''{"lateral_acceleration": '' @ json_float env A @ ''}'';
             pv = ''{"vertical_acceleration": '' @ json_float env Vt @ ''}'';
             el = Publish ''sampleapp/currentLongitudinalAccel'' pl;
             ea = Publish ''sampleapp/currentLateralAccel'' pa;
             ev = Publish ''sampleapp/currentVerticalAccel'' pv;
             out = snd (on_accel_change env data tr);
             rl = pubsub_publish env (tr @ logs) ''sampleapp/currentLongitudinalAccel'' pl;
             ra = pubsub_publish env (tr @ logs @ [el]) ''sampleapp/currentLateralAccel'' pa
         in (isl rl \<longrightarrow> out = tr @ logs @ [el])
          \<and> (\<not> isl rl \<and> isl ra \<longrightarrow> out = tr @ logs @ [el, ea])
          \<and> (\<not> isl rl \<and> \<not> isl ra \<longrightarrow> out = tr @ logs @ [el, ea, ev])\<close>
  by (simp add: accel_change_run [OF assms] Let_def isl_def split: sum.splits)

theorem accel_change_logs_then_publishes_witness:
  \<open>snd (on_accel_change (lossy_env ''sampleapp/currentLongitudinalAccel'') steady_values []) =
     [Log ''vehicle/acceleration_longitudinal'' INFO ''Vehicle longitudinal acceleration: 1.0'',
      Log ''vehicle/acceleration_lateral'' INFO ''Vehicle lateral acceleration: -0.5'',
      Log ''vehicle/acceleration_vertical'' INFO ''Vehicle vertical acceleration: 9.81'',
      Publish ''sampleapp/currentLongitudinalAccel'' ''{"longitudinal_acceleration": 1.0}'']
   \<and> snd (on_accel_change (flaky_env 1) steady_values []) =
     [Log ''vehicle/acceleration_longitudinal'' INFO ''Vehicle longitudinal acceleration: 1.0'',
      Log ''vehicle/acceleration_lateral'' INFO ''Vehicle lateral acceleration: -0.5'',
      Log ''vehicle/acceleration_vertical'' INFO ''Vehicle vertical acceleration: 9.81'',
      Publish ''sampleapp/currentLongitudinalAccel'' ''{"longitudinal_acceleration": 1.0}'',
      Publish ''sampleapp/currentLateralAccel'' ''{"lateral_acceleration": -0.5}'']
   \<and> snd (on_accel_change steady_env steady_values []) =
     [Log ''vehicle/acceleration_longitudinal'' INFO ''Vehicle longitudinal acceleration: 1.0'',
      Log ''vehicle/acceleration_lateral'' INFO ''Vehicle lateral acceleration: -0.5'',
      Log ''vehicle/acceleration_vertical'' INFO ''Vehicle vertical acceleration: 9.81'',
      Publish ''sampleapp/currentLongitudinalAccel'' ''{"longitudinal_acceleration": 1.0}'',
      Publish ''sampleapp/currentLateralAccel'' ''{"lateral_acceleration": -0.5}'',
      Publish ''sampleapp/currentVerticalAccel'' ''{"vertical_acceleration": 9.81}'']\<close>
proof -
  note run = accel_change_logs_then_publishes
      [OF steady_reply(1) steady_reply(2) steady_reply(3)]
  have first: \<open>snd (on_accel_change (lossy_env ''sampleapp/currentLongitudinalAccel'')
        steady_values []) =
     [Log ''vehicle/acceleration_longitudinal'' INFO ''Vehicle longitudinal acceleration: 1.0'',
      Log ''vehicle/acceleration_lateral'' INFO ''Vehicle lateral acceleration: -0.5'',
      Log ''vehicle/acceleration_vertical'' INFO ''Vehicle vertical acceleration: 9.81'',
      Publish ''sampleapp/currentLongitudinalAccel'' ''{"longitudinal_acceleration": 1.0}'']\<close>
    using run [where env = "lossy_env ''sampleapp/currentLongitudinalAccel''" and tr = "[]"]
    by (simp add: Let_def lossy_env_def steady_env_def)
  have second: \<open>snd (on_accel_change (flaky_env 1) steady_values []) =
     [Log ''vehicle/acceleration_longitudinal'' INFO ''Vehicle longitudinal acceleration: 1.0'',
      Log ''vehicle/acceleration_lateral'' INFO ''Vehicle lateral acceleration: -0.5'',
      Log ''vehicle/acceleration_vertical'' INFO ''Vehicle vertical acceleration: 9.81'',
      Publish ''sampleapp/currentLongitudinalAccel'' ''{"longitudinal_acceleration": 1.0}'',
      Publish ''sampleapp/currentLateralAccel'' ''{"lateral_acceleration": -0.5}'']\<close>
    using run [where env = "flaky_env 1" and tr = "[]"]
    by (simp add: Let_def flaky_env_def steady_env_def)
  have third: \<open>snd (on_accel_change steady_env steady_values []) =
     [Log ''vehicle/acceleration_longitudinal'' INFO ''Vehicle longitudinal acceleration: 1.0'',
      Log ''vehicle/acceleration_lateral'' INFO ''Vehicle lateral acceleration: -0.5'',
      Log ''vehicle/acceleration_vertical'' INFO ''Vehicle vertical acceleration: 9.81'',
      Publish ''sampleapp/currentLongitudinalAccel'' ''{"longitudinal_acceleration": 1.0}'',
      Publish ''sampleapp/currentLateralAccel'' ''{"lateral_acceleration": -0.5}'',
      Publish ''sampleapp/currentVerticalAccel'' ''{"vertical_acceleration": 9.81}'']\<close>
    using run [where env = steady_env and tr = "[]"]
    by (simp add: Let_def steady_env_def)
  show ?thesis
    using first second third by simp
qed

text \<open>
  Claim C10. \<open>on_accel_change\<close> reads the three axis values before it emits anything:
  when the notification lacks one of them, the handler ends with an exception and has
  written no log line and made no publish.
\<close>

theorem accel_change_missing_axis_emits_nothing:
  assumes "isl (data Longitudinal) \<or> isl (data Lateral) \<or> isl (data Vertical)"
  shows "snd (on_accel_change env data tr) = tr \<and> isl (fst (on_accel_change env data tr))"
  using assms
  by (auto simp add: on_accel_change_def bind_io_def reply_value_def isl_def split: sum.splits)

theorem accel_change_missing_axis_emits_nothing_witness:
  "isl (lateral_missing Lateral) \<and>
   snd (on_accel_change steady_env lateral_missing []) = [] \<and>
   isl (fst (on_accel_change steady_env lateral_missing []))"
proof -
  have absent: "isl (lateral_missing Lateral)"
    by (simp add: lateral_missing_def)
  then have "isl (lateral_missing Longitudinal) \<or> isl (lateral_missing Lateral)
      \<or> isl (lateral_missing Vertical)"
    by simp
  from accel_change_missing_axis_emits_nothing [OF this, of steady_env "[]"] absent
  show ?thesis by simp
qed

text \<open>
  Claim C3 says that a publish that fails does not keep the other two axes from being
  attempted. The handler awaits the three publishes one after the other with no exception
  handler around them: when the longitudinal publish raises, the lateral and the vertical
  one are never attempted.
\<close>

theorem accel_publish_raise_blocks_siblings:
  \<open>pubsub_publish (lossy_env ''sampleapp/currentLongitudinalAccel'') []
      ''sampleapp/currentLongitudinalAccel'' ''{"longitudinal_acceleration": 1.0}'' =
     Inl ''transport error'' \<and>
   publishes (snd (on_accel_change (lossy_env ''sampleapp/currentLongitudinalAccel'')
                     steady_values [])) =
     [(''sampleapp/currentLongitudinalAccel'', ''{"longitudinal_acceleration": 1.0}'')]\<close>
  by (simp add: accel_change_run [OF steady_reply(1) steady_reply(2) steady_reply(3)]
       Let_def lossy_env_def steady_env_def)

text \<open>
  Claim C3, amended. The three publishes are awaited one after the other, in the order
  longitudinal, lateral, vertical, each at most once and with no exception handler around
  them. A publish that raises, the last one included, ends the handler with that very
  exception; the axes after it are not attempted and the publishes made before it stand.
  A publish call that returns, whatever it returns, is followed by the next axis; when
  all three return, the handler returns normally. The result and the trace are given for
  each of the four cases, each publish being judged on the history at its own call.
\<close>

theorem accel_publishes_stop_at_first_raise:
  assumes "data Longitudinal = Inr L" and "data Lateral = Inr A" and "data Vertical = Inr Vt"
  shows \<open>let h0 = tr @ [Log ''vehicle/acceleration_longitudinal'' INFO
                           (''Vehicle longitudinal acceleration: '' @ py_str env L),
                         Log ''vehicle/acceleration_lateral'' INFO
                           (''Vehicle lateral acceleration: '' @ py_str env A),
                         Log ''vehicle/acceleration_vertical'' INFO
                           (''Vehicle vertical acceleration: '' @ py_str env Vt)];
             pl = ''{"longitudinal_acceleration": '' @ json_float env L @ ''}'';
             pa = ''{"lateral_acceleration": '' @ json_float env A @ ''}'';
             pv = ''{"vertical_acceleration": '' @ json_float env Vt @ ''}'';
             h1 = h0 @ [Publish ''sampleapp/currentLongitudinalAccel'' pl];
             h2 = h1 @ [Publish ''sampleapp/currentLateralAccel'' pa];
             h3 = h2 @ [Publish ''sampleapp/currentVerticalAccel'' pv];
             rl = pubsub_publish env h0 ''sampleapp/currentLongitudinalAccel'' pl;
             ra = pubsub_publish env h1 ''sampleapp/currentLateralAccel'' pa;
             rv = pubsub_publish env h2 ''sampleapp/currentVerticalAccel'' pv
         in (\<forall>e. rl = Inl e \<longrightarrow> on_accel_change env data tr = (Inl e, h1))
          \<and> (\<forall>e. \<not> isl rl \<and> ra = Inl e \<longrightarrow> on_accel_change env data tr = (Inl e, h2))
          \<and> (\<forall>e. \<not> isl rl \<and> \<not> isl ra \<and> rv = Inl e \<longrightarrow>
                 on_accel_change env data tr = (Inl e, h3))
          \<and> (\<not> isl rl \<and> \<not> isl ra \<and> \<not> isl rv \<longrightarrow>
                 on_accel_change env data tr = (Inr (), h3))\<close>
  by (simp add: accel_change_run [OF assms] Let_def isl_def split: sum.splits)

theorem accel_publishes_stop_at_first_raise_witness:
  \<open>on_accel_change (lossy_env ''sampleapp/currentLongitudinalAccel'') steady_values [] =
     (Inl ''transport error'',
      [Log ''vehicle/acceleration_longitudinal'' INFO ''Vehicle longitudinal acceleration: 1.0'',
       Log ''vehicle/acceleration_lateral'' INFO ''Vehicle lateral acceleration: -0.5'',
       Log ''vehicle/acceleration_vertical'' INFO ''Vehicle vertical acceleration: 9.81'',
       Publish ''sampleapp/currentLongitudinalAccel'' ''{"longitudinal_acceleration": 1.0}''])
   \<and> on_accel_change (flaky_env 1) steady_values [] =
     (Inl ''transport error'',
      [Log ''vehicle/acceleration_longitudinal'' INFO ''Vehicle longitudinal acceleration: 1.0'',
       Log ''vehicle/acceleration_lateral'' INFO ''Vehicle lateral acceleration: -0.5'',
       Log ''vehicle/acceleration_vertical'' INFO ''Vehicle vertical acceleration: 9.81'',
       Publish ''sampleapp/currentLongitudinalAccel'' ''{"longitudinal_acceleration": 1.0}'',
       Publish ''sampleapp/currentLateralAccel'' ''{"lateral_acceleration": -0.5}''])
   \<and> on_accel_change (lossy_env ''sampleapp/currentVerticalAccel'') steady_values [] =
     (Inl ''transport error'',
      [Log ''vehicle/acceleration_longitudinal'' INFO ''Vehicle longitudinal acceleration: 1.0'',
       Log ''vehicle/acceleration_lateral'' INFO ''Vehicle lateral acceleration: -0.5'',
       Log ''vehicle/acceleration_vertical'' INFO ''Vehicle vertical acceleration: 9.81'',
       Publish ''sampleapp/currentLongitudinalAccel'' ''{"longitudinal_acceleration": 1.0}'',
       Publish ''sampleapp/currentLateralAccel'' ''{"lateral_acceleration": -0.5}'',
       Publish ''sampleapp/currentVerticalAccel'' ''{"vertical_acceleration": 9.81}''])
   \<and> on_accel_change steady_env steady_values [] =
     (Inr (),
      [Log ''vehicle/acceleration_longitudinal'' INFO ''Vehicle longitudinal acceleration: 1.0'',
       Log ''vehicle/acceleration_lateral'' INFO ''Vehicle lateral acceleration: -0.5'',
       Log ''vehicle/acceleration_vertical'' INFO ''Vehicle vertical acceleration: 9.81'',
       Publish ''sampleapp/currentLongitudinalAccel'' ''{"longitudinal_acceleration": 1.0}'',
       Publish ''sampleapp/currentLateralAccel'' ''{"lateral_acceleration": -0.5}'',
       Publish ''sampleapp/currentVerticalAccel'' ''{"vertical_acceleration": 9.81}''])\<close>
proof -
  note run = accel_publishes_stop_at_first_raise
      [OF steady_reply(1) steady_reply(2) steady_reply(3)]
  have first: \<open>on_accel_change (lossy_env ''sampleapp/currentLongitudinalAccel'')
        steady_values [] =
     (Inl ''transport error'',
      [Log ''vehicle/acceleration_longitudinal'' INFO ''Vehicle longitudinal acceleration: 1.0'',
       Log ''vehicle/acceleration_lateral'' INFO ''Vehicle lateral acceleration: -0.5'',
       Log ''vehicle/acceleration_vertical'' INFO ''Vehicle vertical acceleration: 9.81'',
       Publish ''sampleapp/currentLongitudinalAccel''
         ''{"longitudinal_acceleration": 1.0}''])\<close>
    using run [where env = "lossy_env ''sampleapp/currentLongitudinalAccel''" and tr = "[]"]
    by (simp add: Let_def lossy_env_def steady_env_def)
  have second: \<open>on_accel_change (flaky_env 1) steady_values [] =
     (Inl ''transport error'',
      [Log ''vehicle/acceleration_longitudinal'' INFO ''Vehicle longitudinal acceleration: 1.0'',
       Log ''vehicle/acceleration_lateral'' INFO ''Vehicle lateral acceleration: -0.5'',
       Log ''vehicle/acceleration_vertical'' INFO ''Vehicle vertical acceleration: 9.81'',
       Publish ''sampleapp/currentLongitudinalAccel'' ''{"longitudinal_acceleration": 1.0}'',
       Publish ''sampleapp/currentLateralAccel'' ''{"lateral_acceleration": -0.5}''])\<close>
    using run [where env = "flaky_env 1" and tr = "[]"]
    by (simp add: Let_def flaky_env_def steady_env_def)
  have third: \<open>on_accel_change (lossy_env ''sampleapp/currentVerticalAccel'')
        steady_values [] =
     (Inl ''transport error'',
      [Log ''vehicle/acceleration_longitudinal'' INFO ''Vehicle longitudinal acceleration: 1.0'',
       Log ''vehicle/acceleration_lateral'' INFO ''Vehicle lateral acceleration: -0.5'',
       Log ''vehicle/acceleration_vertical'' INFO ''Vehicle vertical acceleration: 9.81'',
       Publish ''sampleapp/currentLongitudinalAccel'' ''{"longitudinal_acceleration": 1.0}'',
       Publish ''sampleapp/currentLateralAccel'' ''{"lateral_acceleration": -0.5}'',
       Publish ''sampleapp/currentVerticalAccel'' ''{"vertical_acceleration": 9.81}''])\<close>
    using run [where env = "lossy_env ''sampleapp/currentVerticalAccel''" and tr = "[]"]
    by (simp add: Let_def lossy_env_def steady_env_def)
  have none: \<open>on_accel_change steady_env steady_values [] =
     (Inr (),
      [Log ''vehicle/acceleration_longitudinal'' INFO ''Vehicle longitudinal acceleration: 1.0'',
       Log ''vehicle/acceleration_lateral'' INFO ''Vehicle lateral acceleration: -0.5'',
       Log ''vehicle/acceleration_vertical'' INFO ''Vehicle vertical acceleration: 9.81'',
       Publish ''sampleapp/currentLongitudinalAccel'' ''{"longitudinal_acceleration": 1.0}'',
       Publish ''sampleapp/currentLateralAccel'' ''{"lateral_acceleration": -0.5}'',
       Publish ''sampleapp/currentVerticalAccel'' ''{"vertical_acceleration": 9.81}''])\<close>
    using run [where env = steady_env and tr = "[]"]
    by (simp add: Let_def steady_env_def)
  show ?thesis
    using first second third none by simp
qed

subsection \<open>Startup\<close>




subsection \<open>Responses\<close>

text \<open>
  Claim C9. What a request handler publishes does not depend on the payload of the
  request: for any two payloads, the same environment and the same history, the publishes
  (topic and body) after the handler has run are the same.
\<close>

theorem response_independent_of_payload:
  "publishes (snd (on_message env topic p1 tr)) = publishes (snd (on_message env topic p2 tr))"
proof (cases topic rule: on_message_split)
  case 1
  then show ?thesis
    by (cases "vdb_get env Speed")
       (simp_all add: on_message_bound request_ok request_fail publishes_append
          del: json_dumps.simps)
next
  case 2
  then show ?thesis
    by (cases "vdb_get env Longitudinal")
       (simp_all add: on_message_bound request_ok request_fail publishes_append
          del: json_dumps.simps)
next
  case 3
  then show ?thesis
    by (cases "vdb_get env Lateral")
       (simp_all add: on_message_bound request_ok request_fail publishes_append
          del: json_dumps.simps)
next
  case 4
  then show ?thesis
    by (cases "vdb_get env Vertical")
       (simp_all add: on_message_bound request_ok request_fail publishes_append
          del: json_dumps.simps)
next
  case 5
  then show ?thesis by (simp add: on_message_unbound)
qed

theorem response_independent_of_payload_witness:
  \<open>publishes (snd (on_message steady_env ''sampleapp/getLateralAccel'' ''{"unit": "g"}'' [])) =
     [(''sampleapp/getLateralAccel/response'',
       ''{"result": {"status": 0, "message": "LAT Acceleration = -0.5"}}'')]\<close>
proof -
  have fetched: "vdb_get steady_env Lateral = Inr ''-0.5''"
    by (simp add: steady_env_def steady_values_def)
  have \<open>publishes (snd (on_message steady_env ''sampleapp/getLateralAccel'' [] [])) =
     [(''sampleapp/getLateralAccel/response'',
       ''{"result": {"status": 0, "message": "LAT Acceleration = -0.5"}}'')]\<close>
    using lat_request_ok [OF fetched, of "[]" "[]"]
    by (simp add: on_message_bound response_text py_encode_basestring_ascii_def
          escape_char_def steady_env_def del: json_dumps.simps)
  then show ?thesis
    using response_independent_of_payload
      [of steady_env "''sampleapp/getLateralAccel''" \<open>''{"unit": "g"}''\<close> "[]" "[]"]
    by simp
qed

text \<open>
  Claim C6. Every message published on the delivery of an inbound message, whatever the
  topic, the payload and the environment, is the dump of
  \<open>{"result": {"status": 0, "message": m}}\<close> for some string \<open>m\<close>: the status is 0
  and no other status is produced.
\<close>

theorem response_status_always_zero:
  "\<exists>out. snd (on_message env topic data tr) = tr @ out \<and>
     (\<forall>(t, p) \<in> set (publishes out).
        \<exists>m. p = json_dumps (json_float env)
                   (JDict [(''result'', JDict [(''status'', JInt 0), (''message'', JStr m)])]))"
proof (cases topic rule: on_message_split)
  case 1
  then show ?thesis
    by (cases "vdb_get env Speed")
       (auto simp add: on_message_bound request_ok request_fail simp del: json_dumps.simps)
next
  case 2
  then show ?thesis
    by (cases "vdb_get env Longitudinal")
       (auto simp add: on_message_bound request_ok request_fail simp del: json_dumps.simps)
next
  case 3
  then show ?thesis
    by (cases "vdb_get env Lateral")
       (auto simp add: on_message_bound request_ok request_fail simp del: json_dumps.simps)
next
  case 4
  then show ?thesis
    by (cases "vdb_get env Vertical")
       (auto simp add: on_message_bound request_ok request_fail simp del: json_dumps.simps)
next
  case 5
  then show ?thesis by (simp add: on_message_unbound)
qed

theorem response_status_always_zero_witness:
  \<open>\<exists>m. ''{"result": {"status": 0, "message": "Speed = 42.5"}}'' =
     json_dumps (json_float steady_env)
       (JDict [(''result'', JDict [(''status'', JInt 0), (''message'', JStr m)])])\<close>
proof -
  have fetched: "vdb_get steady_env Speed = Inr ''42.5''"
    by (simp add: steady_env_def steady_values_def)
  have run: \<open>snd (on_message steady_env ''sampleapp/getSpeed'' [] []) =
      [Log ''__main__'' DEBUG ''Received speed request on topic sampleapp/getSpeed with data: '',
       Publish ''sampleapp/getSpeed/response''
         ''{"result": {"status": 0, "message": "Speed = 42.5"}}'']\<close>
    using speed_request_ok [OF fetched, of "[]" "[]"]
    by (simp add: on_message_bound response_text py_encode_basestring_ascii_def
          escape_char_def steady_env_def del: json_dumps.simps)
  from response_status_always_zero [of steady_env "''sampleapp/getSpeed''" "[]" "[]"]
  show ?thesis
    unfolding run by (auto simp del: json_dumps.simps)
qed

text \<open>
  Claim C7 gives the response to a speed request at speed 42.5 as the text
  \<open>{"result":{"status":0,"message":"Speed = 42.5"}}\<close>, with no space after a colon or a
  comma. \<open>json.dumps\<close> is called with its default separators, so this text is not what is
  published.
\<close>

theorem get_speed_response_not_compact:
  \<open>vdb_get steady_env Speed = Inr ''42.5'' \<and> py_str steady_env ''42.5'' = ''42.5'' \<and>
   (''sampleapp/getSpeed/response'', ''{"result":{"status":0,"message":"Speed = 42.5"}}'')
     \<notin> set (publishes (snd (on_message steady_env ''sampleapp/getSpeed'' [] [])))\<close>
proof -
  have fetched: "vdb_get steady_env Speed = Inr ''42.5''"
    by (simp add: steady_env_def steady_values_def)
  have run: \<open>snd (on_message steady_env ''sampleapp/getSpeed'' [] []) =
      [Log ''__main__'' DEBUG ''Received speed request on topic sampleapp/getSpeed with data: '',
       Publish ''sampleapp/getSpeed/response''
         ''{"result": {"status": 0, "message": "Speed = 42.5"}}'']\<close>
    using speed_request_ok [OF fetched, of "[]" "[]"]
    by (simp add: on_message_bound response_text py_encode_basestring_ascii_def
          escape_char_def steady_env_def del: json_dumps.simps)
  show ?thesis
    unfolding run using fetched by (simp add: steady_env_def)
qed

text \<open>
  Claim C7, amended. When a request arrives on \<open>sampleapp/getSpeed\<close> while the current
  speed is written \<open>42.5\<close>, the handler publishes on \<open>sampleapp/getSpeed/response\<close> the
  text \<open>{"result": {"status": 0, "message": "Speed = 42.5"}}\<close>: the same JSON document,
  with a space after each colon and comma.
\<close>

theorem get_speed_response_text:
  assumes "vdb_get env Speed = Inr v" and "py_str env v = ''42.5''"
  shows \<open>publishes (snd (on_message env ''sampleapp/getSpeed'' data tr)) =
     publishes tr @
       [(''sampleapp/getSpeed/response'',
         ''{"result": {"status": 0, "message": "Speed = 42.5"}}'')]\<close>
  using speed_request_ok [OF assms(1), of data tr] assms(2)
  by (simp add: on_message_bound response_text py_encode_basestring_ascii_def
        escape_char_def publishes_append del: json_dumps.simps)

theorem get_speed_response_text_witness:
  \<open>vdb_get steady_env Speed = Inr ''42.5'' \<and> py_str steady_env ''42.5'' = ''42.5'' \<and>
   publishes (snd (on_message steady_env ''sampleapp/getSpeed'' ''{}'' [])) =
     [(''sampleapp/getSpeed/response'',
       ''{"result": {"status": 0, "message": "Speed = 42.5"}}'')]\<close>
proof -
  have fetched: "vdb_get steady_env Speed = Inr ''42.5''"
    by (simp add: steady_env_def steady_values_def)
  have shown: "py_str steady_env ''42.5'' = ''42.5''"
    by (simp add: steady_env_def)
  from get_speed_response_text [OF fetched shown, of "''{}''" "[]"] fetched shown
  show ?thesis by simp
qed

end
